theory Spec2Isabelle
  imports Main "HOL-Library.Word"
begin

section \<open>Data model\<close>

text \<open>
  The views of \<^verbatim>\<open>saas/views/metrics.py\<close> read Django model instances. Each model the
  views touch is a record holding the fields the views read. Text fields are sequences of
  Unicode code points, since the views encode them to UTF-8 themselves.
\<close>

type_synonym unicode = "nat list"
type_synonym byte = "8 word"

record date =
  year :: int
  month :: nat
  day :: nat

text \<open>A \<^verbatim>\<open>datetime\<close>: a calendar date and the seconds elapsed since midnight.\<close>

record datetime =
  dt_date :: date
  dt_seconds :: nat

record coupon =
  coupon_id :: nat
  code :: unicode
  percent :: nat

record user =
  first_name :: unicode
  last_name :: unicode
  user_email :: unicode
  date_joined :: datetime

record plan =
  slug :: unicode
  title :: unicode
  plan_organization :: string

record organization =
  full_name :: unicode
  org_email :: unicode

text \<open>A cart item associates a user and a plan with an optional coupon.\<close>

record cartitem =
  ci_coupon :: "coupon option"
  ci_user :: user
  ci_plan :: plan
  recorded :: bool

record subscription =
  sub_organization :: organization
  sub_plan :: plan
  created_at :: datetime
  ends_at :: datetime

datatype error = AttributeError | NotImplementedError

text \<open>
  A value handed to the CSV writer: a string literal of the source, the bytes produced by
  \<^verbatim>\<open>.encode('utf-8')\<close>, a text value that was not encoded, a number, a date or a
  datetime.
\<close>

datatype cell =
  Str string
| Bytes "byte list"
| Text unicode
| Num int
| DateCell date
| DateTimeCell datetime

section \<open>Library functions the views call\<close>

text \<open>\<^verbatim>\<open>unicode.encode('utf-8')\<close>: one to four bytes per code point.\<close>

definition utf8_encode_char :: "nat \<Rightarrow> byte list" where
  "utf8_encode_char c =
     (if c < 128 then [of_nat c]
      else if c < 2048 then [of_nat (192 + c div 64), of_nat (128 + c mod 64)]
      else if c < 65536 then
        [of_nat (224 + c div 4096), of_nat (128 + c div 64 mod 64), of_nat (128 + c mod 64)]
      else
        [of_nat (240 + c div 262144), of_nat (128 + c div 4096 mod 64),
         of_nat (128 + c div 64 mod 64), of_nat (128 + c mod 64)])"

definition utf8_encode :: "unicode \<Rightarrow> byte list" where
  "utf8_encode s = concat (map utf8_encode_char s)"

text \<open>\<^verbatim>\<open>' '.join(parts)\<close> for text values; 32 is the code point of the space.\<close>

fun join_space :: "unicode list \<Rightarrow> unicode" where
  "join_space [] = []"
| "join_space [x] = x"
| "join_space (x # y # ys) = x @ [32] @ join_space (y # ys)"

text \<open>The code points of an ASCII literal, used to write concrete records.\<close>

definition u :: "string \<Rightarrow> unicode" where
  "u s = map of_char s"

text \<open>Decimal printing of a natural number, and zero padding to a minimal width.\<close>

definition digit_char :: "nat \<Rightarrow> char" where
  "digit_char n = ''0123456789'' ! (n mod 10)"

fun show_nat :: "nat \<Rightarrow> string" where
  "show_nat n = (if n < 10 then [digit_char n] else show_nat (n div 10) @ [digit_char n])"

declare show_nat.simps [simp del]

definition zpad :: "nat \<Rightarrow> string \<Rightarrow> string" where
  "zpad w s = replicate (w - length s) (CHR ''0'') @ s"

text \<open>
  \<^verbatim>\<open>strftime\<close> restricted to the directives the views use: \<^verbatim>\<open>%Y\<close> (year, four
  digits for the years a clock returns), \<^verbatim>\<open>%m\<close> and \<^verbatim>\<open>%d\<close> (two digits); every other
  character of the format is copied.
\<close>

definition directive :: "char \<Rightarrow> date \<Rightarrow> string" where
  "directive f d =
     (if f = CHR ''Y'' then zpad 4 (show_nat (nat (year d)))
      else if f = CHR ''m'' then zpad 2 (show_nat (month d))
      else if f = CHR ''d'' then zpad 2 (show_nat (day d))
      else [CHR ''%'', f])"

fun strftime :: "string \<Rightarrow> date \<Rightarrow> string" where
  "strftime [] d = []"
| "strftime [c] d = [c]"
| "strftime (c # f # rest) d =
     (if c = CHR ''%'' then directive f d @ strftime rest d
      else c # strftime (f # rest) d)"

text \<open>Calendar: the length of a month, and the dates \<^verbatim>\<open>datetime.date\<close> accepts.\<close>

definition is_leap :: "int \<Rightarrow> bool" where
  "is_leap y = (y mod 4 = 0 \<and> (0 < y mod 100 \<or> y mod 400 = 0))"

definition days_in_month :: "int \<Rightarrow> nat \<Rightarrow> nat" where
  "days_in_month y m =
     (if m = 2 then (if is_leap y then 29 else 28)
      else if m = 4 \<or> m = 6 \<or> m = 9 \<or> m = 11 then 30
      else 31)"

definition valid_date :: "date \<Rightarrow> bool" where
  "valid_date d =
     (1 \<le> year d \<and> year d \<le> 9999 \<and> 1 \<le> month d \<and> month d \<le> 12 \<and>
      1 \<le> day d \<and> day d \<le> days_in_month (year d) (month d))"

section \<open>The CSV export renderer\<close>

record response =
  content_type :: string
  filename :: string
  body :: "cell list list"

text \<open>
  The rows of the records of a query source, in iteration order; the first record whose
  mapping raises aborts the export.
\<close>

fun write_rows :: "('r \<Rightarrow> error + cell list) \<Rightarrow> 'r list \<Rightarrow> error + cell list list" where
  "write_rows f [] = Inr []"
| "write_rows f (r # rs) =
     (case f r of
        Inl e \<Rightarrow> Inl e
      | Inr row \<Rightarrow> (case write_rows f rs of Inl e \<Rightarrow> Inl e | Inr rows \<Rightarrow> Inr (row # rows)))"

text \<open>
  Modelled from the spec: \<^verbatim>\<open>CSVDownloadView\<close> of \<^verbatim>\<open>saas/views/download.py\<close> is not
  among the sources. The renderer writes the heading row first, then one row per record of
  the query source through \<^verbatim>\<open>queryrow_to_columns\<close>, and answers with content type
  \<^verbatim>\<open>text/csv\<close> and the file name of \<^verbatim>\<open>get_filename\<close>. The body is the sequence of
  rows handed to the CSV writer. A query source that raises aborts the export.
\<close>

definition CSVDownloadView_get ::
  "cell list \<Rightarrow> string \<Rightarrow> error + 'r list \<Rightarrow> ('r \<Rightarrow> error + cell list) \<Rightarrow> error + response" where
  "CSVDownloadView_get headings fname queryset queryrow_to_columns =
     (case queryset of
        Inl e \<Rightarrow> Inl e
      | Inr records \<Rightarrow>
          (case write_rows queryrow_to_columns records of
             Inl e \<Rightarrow> Inl e
           | Inr rows \<Rightarrow>
               Inr \<lparr>content_type = ''text/csv'', filename = fname, body = headings # rows\<rparr>))"

definition data_rows :: "response \<Rightarrow> cell list list" where
  "data_rows r = tl (body r)"

section \<open>Coupon metrics\<close>

text \<open>The foreign key of a cart item points at the given coupon.\<close>

definition coupon_is :: "coupon \<Rightarrow> cartitem \<Rightarrow> bool" where
  "coupon_is c ci = (case ci_coupon ci of None \<Rightarrow> False | Some c' \<Rightarrow> coupon_id c' = coupon_id c)"

text \<open>The lookup \<^verbatim>\<open>coupon__in=coupons\<close>.\<close>

definition coupon_in :: "coupon list \<Rightarrow> cartitem \<Rightarrow> bool" where
  "coupon_in cs ci =
     (case ci_coupon ci of None \<Rightarrow> False | Some c' \<Rightarrow> coupon_id c' \<in> set (map coupon_id cs))"

text \<open>
  \<^verbatim>\<open>ListView.get_queryset\<close> with \<^verbatim>\<open>model = CartItem\<close>: every row of the table.
\<close>

definition ListView_get_queryset :: "cartitem list \<Rightarrow> cartitem list" where
  "ListView_get_queryset objects = objects"

text \<open>
  \<^verbatim>\<open>CouponMetricsView.get_queryset\<close>. The coupon is the result of \<^verbatim>\<open>get_coupon()\<close>,
  \<^verbatim>\<open>objects\<close> the rows of the cart item table.
\<close>

definition CouponMetricsView_get_queryset :: "coupon \<Rightarrow> cartitem list \<Rightarrow> cartitem list" where
  "CouponMetricsView_get_queryset c objects =
     filter (\<lambda>ci. coupon_is c ci \<and> recorded ci) (ListView_get_queryset objects)"

text \<open>Values of a template context.\<close>

datatype jval =
  JStr string
| JBool bool
| JList "jval list"
| JDict "(string \<times> jval) list"

datatype ctxval =
  CStr string
| CInt int
| CJson jval
| CPlans "plan list"

type_synonym template_context = "string \<rightharpoonup> ctxval"

text \<open>
  \<^verbatim>\<open>CouponMetricsView.get_context_data\<close>; \<^verbatim>\<open>base\<close> is the context of the parent
  classes.
\<close>

definition CouponMetricsView_get_context_data ::
  "template_context \<Rightarrow> coupon \<Rightarrow> cartitem list \<Rightarrow> template_context" where
  "CouponMetricsView_get_context_data base c objects =
     base(''coupon_performance_count'' \<mapsto>
       CInt (int (length (filter (\<lambda>ci. coupon_is c ci \<and> recorded ci) objects))))"

definition CouponMetricsDownloadView_headings :: "cell list" where
  "CouponMetricsDownloadView_headings =
     [Str ''Code'', Str ''Percentage'', Str ''Name'', Str ''Email'', Str ''Plan'']"

definition CouponMetricsDownloadView_get_headings :: "cell list" where
  "CouponMetricsDownloadView_get_headings = CouponMetricsDownloadView_headings"

text \<open>\<^verbatim>\<open>now\<close> is the value of \<^verbatim>\<open>datetime.now()\<close>.\<close>

definition CouponMetricsDownloadView_get_filename :: "datetime \<Rightarrow> string" where
  "CouponMetricsDownloadView_get_filename now = strftime ''coupons-%Y%m%d.csv'' (dt_date now)"

text \<open>
  \<^verbatim>\<open>CouponMetricsDownloadView.get_queryset\<close>; \<^verbatim>\<open>coupons\<close> is the queryset of the
  parent classes (the coupons the URL parameters select).
\<close>

definition CouponMetricsDownloadView_get_queryset ::
  "coupon list \<Rightarrow> cartitem list \<Rightarrow> cartitem list" where
  "CouponMetricsDownloadView_get_queryset coupons objects = filter (coupon_in coupons) objects"

text \<open>Reading \<^verbatim>\<open>cartitem.coupon.code\<close> raises when the cart item has no coupon.\<close>

definition CouponMetricsDownloadView_queryrow_to_columns :: "cartitem \<Rightarrow> error + cell list" where
  "CouponMetricsDownloadView_queryrow_to_columns ci =
     (case ci_coupon ci of
        None \<Rightarrow> Inl AttributeError
      | Some c \<Rightarrow>
          Inr [Bytes (utf8_encode (code c)),
               Num (int (percent c)),
               Bytes (utf8_encode (join_space [first_name (ci_user ci), last_name (ci_user ci)])),
               Bytes (utf8_encode (user_email (ci_user ci))),
               Bytes (utf8_encode (slug (ci_plan ci)))])"

definition CouponMetricsDownloadView_get ::
  "datetime \<Rightarrow> coupon list \<Rightarrow> cartitem list \<Rightarrow> error + response" where
  "CouponMetricsDownloadView_get now coupons objects =
     CSVDownloadView_get CouponMetricsDownloadView_get_headings
       (CouponMetricsDownloadView_get_filename now)
       (Inr (CouponMetricsDownloadView_get_queryset coupons objects))
       CouponMetricsDownloadView_queryrow_to_columns"

section \<open>Plans and revenue dashboards\<close>

text \<open>The keys of a dictionary, in the order the source writes them.\<close>

fun dict_keys :: "jval \<Rightarrow> string list" where
  "dict_keys (JDict kvs) = map fst kvs"
| "dict_keys (JStr s) = []"
| "dict_keys (JBool b) = []"
| "dict_keys (JList xs) = []"

text \<open>Whether a context entry is a string, and the entries of one that is a plain list.\<close>

fun is_serialized :: "ctxval option \<Rightarrow> bool" where
  "is_serialized (Some (CStr s)) = True"
| "is_serialized v = False"

fun context_tables :: "ctxval option \<Rightarrow> jval list" where
  "context_tables (Some (CJson (JList ts))) = ts"
| "context_tables v = []"

text \<open>
  The local variable \<^verbatim>\<open>tables\<close> of \<^verbatim>\<open>PlansMetricsView.get_context_data\<close>.
  \<^verbatim>\<open>reverse\<close> is Django's URL resolver, applied to a URL name and the organization.
\<close>

definition PlansMetricsView_tables :: "(string \<Rightarrow> string \<Rightarrow> string) \<Rightarrow> string \<Rightarrow> jval list" where
  "PlansMetricsView_tables reverse org =
     [JDict [(''title'', JStr ''Active subscribers''),
             (''key'', JStr ''plan''),
             (''active'', JBool True),
             (''location'', JStr (reverse ''saas_api_plan'' org))]]"

text \<open>
  \<^verbatim>\<open>PlansMetricsView.get_context_data\<close>. \<^verbatim>\<open>dumps\<close> is \<^verbatim>\<open>json.dumps\<close>,
  \<^verbatim>\<open>base\<close> the context of the parent classes, \<^verbatim>\<open>org\<close> the result of
  \<^verbatim>\<open>get_organization()\<close> and \<^verbatim>\<open>plans\<close> the rows of the plan table.
\<close>

definition PlansMetricsView_get_context_data ::
  "(jval \<Rightarrow> string) \<Rightarrow> (string \<Rightarrow> string \<Rightarrow> string) \<Rightarrow> template_context \<Rightarrow> string \<Rightarrow>
   plan list \<Rightarrow> template_context" where
  "PlansMetricsView_get_context_data dumps reverse base org plans =
     (let tables = PlansMetricsView_tables reverse org;
          context1 = base(''title'' \<mapsto> CStr ''Plans'', ''tables'' \<mapsto> CStr (dumps (JList tables)))
      in context1(''plans'' \<mapsto> CPlans (filter (\<lambda>p. plan_organization p = org) plans)))"

text \<open>\<^verbatim>\<open>RevenueMetricsView.get_context_data\<close>: the list of tables is stored as it is.\<close>

definition RevenueMetricsView_get_context_data ::
  "(string \<Rightarrow> string \<Rightarrow> string) \<Rightarrow> template_context \<Rightarrow> string \<Rightarrow> template_context" where
  "RevenueMetricsView_get_context_data reverse base org =
     base(''title'' \<mapsto> CStr ''Revenue'',
          ''tables'' \<mapsto> CJson (JList
            [JDict [(''key'', JStr ''cash''),
                    (''title'', JStr ''Cash flow''),
                    (''unit'', JStr ''$''),
                    (''location'', JStr (reverse ''saas_api_revenue'' org))],
             JDict [(''key'', JStr ''balances''),
                    (''title'', JStr ''Balances''),
                    (''unit'', JStr ''$''),
                    (''location'', JStr (reverse ''saas_api_balances'' org))],
             JDict [(''key'', JStr ''customer''),
                    (''title'', JStr ''Customers''),
                    (''location'', JStr (reverse ''saas_api_customer'' org))]]))"

section \<open>Balances export\<close>

text \<open>The attributes \<^verbatim>\<open>cache_fields\<close> sets on a view that uses \<^verbatim>\<open>MetricsMixin\<close>.\<close>

record metrics_view =
  mv_organization :: string
  mv_ends_at :: datetime

definition BalancesDownloadView_queryname :: string where
  "BalancesDownloadView_queryname = ''balances''"

text \<open>
  \<^verbatim>\<open>month_periods\<close> and \<^verbatim>\<open>monthly_balances\<close> of \<^verbatim>\<open>saas/managers/metrics.py\<close> are
  not among the sources: the methods that call them take them as parameters.
  \<^verbatim>\<open>month_periods\<close> is applied to \<^verbatim>\<open>from_date\<close>; \<^verbatim>\<open>monthly_balances\<close> to the
  organization, the account and the end date, and gives pairs of a period and a balance.
\<close>

definition BalancesDownloadView_get_headings ::
  "(datetime \<Rightarrow> datetime list) \<Rightarrow> metrics_view \<Rightarrow> cell list" where
  "BalancesDownloadView_get_headings month_periods self =
     Str ''name'' # map DateTimeCell (month_periods (mv_ends_at self))"

definition BalancesDownloadView_get_filename :: string where
  "BalancesDownloadView_get_filename = BalancesDownloadView_queryname @ ''.csv''"

text \<open>
  \<^verbatim>\<open>accounts\<close> is the result of \<^verbatim>\<open>Transaction.objects.distinct_accounts()\<close>, which is
  not among the sources.
\<close>

definition BalancesDownloadView_get_queryset :: "unicode list \<Rightarrow> unicode list" where
  "BalancesDownloadView_get_queryset accounts = accounts"

definition BalancesDownloadView_queryrow_to_columns ::
  "(string \<Rightarrow> unicode \<Rightarrow> date \<Rightarrow> ('p \<times> int) list) \<Rightarrow> metrics_view \<Rightarrow> unicode \<Rightarrow>
   error + cell list" where
  "BalancesDownloadView_queryrow_to_columns monthly_balances self account =
     Inr (Text account #
          map (\<lambda>item. Num (snd item))
            (monthly_balances (mv_organization self) account (dt_date (mv_ends_at self))))"

definition BalancesDownloadView_get ::
  "(datetime \<Rightarrow> datetime list) \<Rightarrow> (string \<Rightarrow> unicode \<Rightarrow> date \<Rightarrow> ('p \<times> int) list) \<Rightarrow>
   metrics_view \<Rightarrow> unicode list \<Rightarrow> error + response" where
  "BalancesDownloadView_get month_periods monthly_balances self accounts =
     CSVDownloadView_get (BalancesDownloadView_get_headings month_periods self)
       BalancesDownloadView_get_filename
       (Inr (BalancesDownloadView_get_queryset accounts))
       (BalancesDownloadView_queryrow_to_columns monthly_balances self)"

section \<open>Registered users export\<close>

definition RegisteredBaseDownloadView_get_headings :: "cell list" where
  "RegisteredBaseDownloadView_get_headings =
     [Str ''First name'', Str ''Last name'', Str ''Email'', Str ''Registration Date'']"

text \<open>\<^verbatim>\<open>now\<close> is the value of \<^verbatim>\<open>datetime_or_now()\<close>, the current time.\<close>

definition RegisteredBaseDownloadView_get_filename :: "datetime \<Rightarrow> string" where
  "RegisteredBaseDownloadView_get_filename now =
     ''registered-'' @ strftime ''%Y%m%d'' (dt_date now) @ ''.csv''"

definition RegisteredBaseDownloadView_queryrow_to_columns :: "user \<Rightarrow> error + cell list" where
  "RegisteredBaseDownloadView_queryrow_to_columns instance =
     Inr [Bytes (utf8_encode (first_name instance)),
          Bytes (utf8_encode (last_name instance)),
          Bytes (utf8_encode (user_email instance)),
          DateCell (dt_date (date_joined instance))]"

text \<open>
  \<^verbatim>\<open>RegisteredDownloadView\<close> adds nothing to its base class; \<^verbatim>\<open>users\<close> is what the
  registered-users query source yields.
\<close>

definition RegisteredDownloadView_get :: "datetime \<Rightarrow> user list \<Rightarrow> error + response" where
  "RegisteredDownloadView_get now users =
     CSVDownloadView_get RegisteredBaseDownloadView_get_headings
       (RegisteredBaseDownloadView_get_filename now)
       (Inr users)
       RegisteredBaseDownloadView_queryrow_to_columns"

section \<open>Subscription exports\<close>

text \<open>
  The classes of the subscription exports. Every method is defined once, in
  \<^verbatim>\<open>SubscriptionBaseDownloadView\<close>, and takes the instance; the subclasses set the class
  attribute \<^verbatim>\<open>subscriber_type\<close> and bring the query source of a mixin.
\<close>

datatype subscription_view =
  SubscriptionBaseDownloadView
| ActiveSubscriptionBaseDownloadView
| ActiveSubscriptionDownloadView
| ChurnedSubscriptionBaseDownloadView
| ChurnedSubscriptionDownloadView

fun subscriber_type :: "subscription_view \<Rightarrow> string option" where
  "subscriber_type SubscriptionBaseDownloadView = None"
| "subscriber_type ActiveSubscriptionBaseDownloadView = Some ''active''"
| "subscriber_type ActiveSubscriptionDownloadView = Some ''active''"
| "subscriber_type ChurnedSubscriptionBaseDownloadView = Some ''churned''"
| "subscriber_type ChurnedSubscriptionDownloadView = Some ''churned''"

text \<open>How \<^verbatim>\<open>str.format\<close> prints the attribute.\<close>

fun str_of :: "string option \<Rightarrow> string" where
  "str_of None = ''None''"
| "str_of (Some s) = s"

text \<open>
  The base class raises; for a subclass \<^verbatim>\<open>records\<close> is what the query source of its
  mixin yields.
\<close>

fun Subscription_get_queryset ::
  "subscription_view \<Rightarrow> subscription list \<Rightarrow> error + subscription list" where
  "Subscription_get_queryset SubscriptionBaseDownloadView records = Inl NotImplementedError"
| "Subscription_get_queryset self records = Inr records"

definition Subscription_get_headings :: "subscription_view \<Rightarrow> cell list" where
  "Subscription_get_headings self =
     [Str ''Name'', Str ''Email'', Str ''Plan'', Str ''Since'', Str ''Until'']"

definition Subscription_get_filename :: "subscription_view \<Rightarrow> datetime \<Rightarrow> string" where
  "Subscription_get_filename self now =
     ''subscribers-'' @ str_of (subscriber_type self) @ ''-'' @
     strftime ''%Y%m%d'' (dt_date now) @ ''.csv''"

definition Subscription_queryrow_to_columns ::
  "subscription_view \<Rightarrow> subscription \<Rightarrow> error + cell list" where
  "Subscription_queryrow_to_columns self instance =
     Inr [Bytes (utf8_encode (full_name (sub_organization instance))),
          Bytes (utf8_encode (org_email (sub_organization instance))),
          Bytes (utf8_encode (title (sub_plan instance))),
          DateCell (dt_date (created_at instance)),
          DateCell (dt_date (ends_at instance))]"

definition Subscription_get ::
  "subscription_view \<Rightarrow> datetime \<Rightarrow> subscription list \<Rightarrow> error + response" where
  "Subscription_get self now records =
     CSVDownloadView_get (Subscription_get_headings self)
       (Subscription_get_filename self now)
       (Subscription_get_queryset self records)
       (Subscription_queryrow_to_columns self)"

section \<open>Auxiliary definitions\<close>

text \<open>
  Reading a decimal numeral back, to state what a printed date denotes.
\<close>

definition digit_value :: "char \<Rightarrow> nat" where
  "digit_value c = of_char c - 48"

definition read_nat :: "string \<Rightarrow> nat" where
  "read_nat s = foldl (\<lambda>a c. 10 * a + digit_value c) 0 s"

section \<open>Concrete records\<close>

text \<open>
  The scenario of the specification for the coupon export: the coupon \<^verbatim>\<open>SAVE10\<close> on
  cart items. The name of the organization \<^verbatim>\<open>cafe\<close> ends in the code point 233.
\<close>

definition save10 :: coupon where
  "save10 = \<lparr>coupon_id = 1, code = u ''SAVE10'', percent = 10\<rparr>"

definition ada :: user where
  "ada = \<lparr>first_name = u ''Ada'', last_name = u ''Lovelace'', user_email = u ''ada@example.com'',
          date_joined = \<lparr>dt_date = \<lparr>year = 2015, month = 3, day = 7\<rparr>, dt_seconds = 3600\<rparr>\<rparr>"

definition basic_plan :: plan where
  "basic_plan = \<lparr>slug = u ''basic'', title = u ''Basic'', plan_organization = ''cowork''\<rparr>"

definition cart_item :: "bool \<Rightarrow> cartitem" where
  "cart_item r = \<lparr>ci_coupon = Some save10, ci_user = ada, ci_plan = basic_plan, recorded = r\<rparr>"

definition today :: datetime where
  "today = \<lparr>dt_date = \<lparr>year = 2015, month = 3, day = 7\<rparr>, dt_seconds = 43200\<rparr>"

definition cafe :: organization where
  "cafe = \<lparr>full_name = [67, 97, 102, 233], org_email = u ''hello@example.com''\<rparr>"

definition cafe_subscription :: subscription where
  "cafe_subscription =
     \<lparr>sub_organization = cafe, sub_plan = basic_plan,
      created_at = \<lparr>dt_date = \<lparr>year = 2015, month = 1, day = 15\<rparr>, dt_seconds = 0\<rparr>,
      ends_at = \<lparr>dt_date = \<lparr>year = 2016, month = 1, day = 15\<rparr>, dt_seconds = 0\<rparr>\<rparr>"

text \<open>
  A URL resolver to evaluate the dashboards with.
\<close>

definition sample_reverse :: "string \<Rightarrow> string \<Rightarrow> string" where
  "sample_reverse name org = ''/'' @ name @ ''/'' @ org @ ''/''"

section \<open>Properties of the library functions\<close>

subsection \<open>UTF-8\<close>

text \<open>
  An ASCII code point is encoded as itself, and every byte of the encoding of any other
  code point is at least 128: a comma, a quote or a line break appears in the bytes only
  where it appears in the text.
\<close>

lemma utf8_encode_char_ascii: "c < 128 \<Longrightarrow> utf8_encode_char c = [of_nat c]"
  by (simp add: utf8_encode_char_def)

lemma high_byte: "128 \<le> n \<Longrightarrow> n < 256 \<Longrightarrow> 128 \<le> unat (of_nat n :: byte)"
  by (simp add: unat_of_nat)

lemma utf8_encode_char_high:
  assumes "128 \<le> c" and "c < 1114112" and "b \<in> set (utf8_encode_char c)"
  shows "128 \<le> unat b"
proof -
  have m: "c mod 64 < 64" "c div 64 mod 64 < 64" "c div 4096 mod 64 < 64" by simp_all
  consider "c < 2048" | "2048 \<le> c" "c < 65536" | "65536 \<le> c" by linarith
  then show ?thesis
  proof cases
    case 1
    then have "c div 64 < 32" by simp
    with assms 1 m show ?thesis
      by (auto simp: utf8_encode_char_def simp del: of_nat_add intro!: high_byte)
  next
    case 2
    then have "c div 4096 < 16" by simp
    with assms 2 m show ?thesis
      by (auto simp: utf8_encode_char_def simp del: of_nat_add intro!: high_byte)
  next
    case 3
    from assms(2) have "c div 262144 < 5" by simp
    with assms 3 m show ?thesis
      by (auto simp: utf8_encode_char_def simp del: of_nat_add intro!: high_byte)
  qed
qed

subsection \<open>Printing dates\<close>

lemma digit_char_digit: "digit_char n \<in> set ''0123456789''"
  unfolding digit_char_def by (rule nth_mem) simp

lemma below_ten_cases:
  "(m::nat) < 10 \<Longrightarrow>
   m = 0 \<or> m = 1 \<or> m = 2 \<or> m = 3 \<or> m = 4 \<or> m = 5 \<or> m = 6 \<or> m = 7 \<or> m = 8 \<or> m = 9"
  by arith

lemma digit_value_digit_char: "digit_value (digit_char n) = n mod 10"
proof -
  have "digit_value (''0123456789'' ! m) = m" if "m < 10" for m
    using below_ten_cases [OF that] by (elim disjE) (simp_all add: digit_value_def)
  then show ?thesis by (simp add: digit_char_def)
qed

lemma set_show_nat: "set (show_nat n) \<subseteq> set ''0123456789''"
proof (induction n rule: show_nat.induct)
  case (1 n)
  show ?case
  proof (cases "n < 10")
    case True
    with digit_char_digit [of n] show ?thesis by (subst show_nat.simps) simp
  next
    case False
    with "1" digit_char_digit [of n] show ?thesis by (subst show_nat.simps) simp
  qed
qed

lemma length_show_nat: "0 < k \<Longrightarrow> n < 10 ^ k \<Longrightarrow> length (show_nat n) \<le> k"
proof (induction n arbitrary: k rule: show_nat.induct)
  case (1 n)
  show ?case
  proof (cases "n < 10")
    case True
    with "1.prems" show ?thesis by (subst show_nat.simps) simp
  next
    case False
    from "1.prems" obtain j where k: "k = Suc j"
      by (cases k) simp_all
    have j: "0 < j"
    proof (rule gr0I)
      assume "j = 0"
      with "1.prems" k False show False by simp
    qed
    from "1.prems" k have "n div 10 < 10 ^ j"
      by (simp add: less_mult_imp_div_less mult.commute)
    from "1.IH" [OF False j this] False k show ?thesis
      by (subst show_nat.simps) simp
  qed
qed

lemma read_nat_append: "read_nat (s @ [c]) = 10 * read_nat s + digit_value c"
  by (simp add: read_nat_def)

lemma read_nat_show_nat: "read_nat (show_nat n) = n"
proof (induction n rule: show_nat.induct)
  case (1 n)
  show ?case
  proof (cases "n < 10")
    case True
    then show ?thesis
      by (subst show_nat.simps) (simp add: read_nat_def digit_value_digit_char)
  next
    case False
    with "1" show ?thesis
      by (subst show_nat.simps) (simp add: read_nat_append digit_value_digit_char)
  qed
qed

lemma read_nat_zeros: "foldl (\<lambda>a c. 10 * a + digit_value c) 0 (replicate k (CHR ''0'')) = 0"
  by (induction k) (simp_all add: digit_value_def)

lemma read_nat_zpad: "read_nat (zpad w (show_nat n)) = n"
  using read_nat_show_nat [of n] by (simp add: zpad_def read_nat_def read_nat_zeros)

lemma length_zpad: "length s \<le> w \<Longrightarrow> length (zpad w s) = w"
  by (simp add: zpad_def)

lemma set_zpad: "set s \<subseteq> set ''0123456789'' \<Longrightarrow> set (zpad w s) \<subseteq> set ''0123456789''"
  by (auto simp: zpad_def)

lemma strftime_Ymd:
  "strftime ''%Y%m%d'' d =
     zpad 4 (show_nat (nat (year d))) @ zpad 2 (show_nat (month d)) @ zpad 2 (show_nat (day d))"
  by (simp add: directive_def)

lemma days_in_month_le: "days_in_month y m \<le> 31"
  by (simp add: days_in_month_def)

lemma length_year: "valid_date d \<Longrightarrow> length (zpad 4 (show_nat (nat (year d)))) = 4"
proof (rule length_zpad, rule length_show_nat)
  assume "valid_date d"
  then have "year d \<le> 9999" by (simp add: valid_date_def)
  then show "nat (year d) < 10 ^ 4" by simp
qed simp

lemma length_month: "valid_date d \<Longrightarrow> length (zpad 2 (show_nat (month d))) = 2"
  by (rule length_zpad, rule length_show_nat) (simp_all add: valid_date_def)

lemma length_day: "valid_date d \<Longrightarrow> length (zpad 2 (show_nat (day d))) = 2"
proof (rule length_zpad, rule length_show_nat)
  assume "valid_date d"
  with days_in_month_le [of "year d" "month d"] show "day d < 10 ^ 2"
    by (simp add: valid_date_def)
qed simp

lemma strftime_Ymd_length: "valid_date d \<Longrightarrow> length (strftime ''%Y%m%d'' d) = 8"
  by (simp only: strftime_Ymd length_append length_year length_month length_day)

lemma strftime_Ymd_digits: "set (strftime ''%Y%m%d'' d) \<subseteq> set ''0123456789''"
  using set_zpad [OF set_show_nat, of 4 "nat (year d)"] set_zpad [OF set_show_nat, of 2 "month d"]
    set_zpad [OF set_show_nat, of 2 "day d"]
  by (simp only: strftime_Ymd set_append Un_subset_iff)

lemma strftime_Ymd_fields:
  assumes "valid_date d"
  shows "read_nat (take 4 (strftime ''%Y%m%d'' d)) = nat (year d)"
    and "read_nat (take 2 (drop 4 (strftime ''%Y%m%d'' d))) = month d"
    and "read_nat (drop 6 (strftime ''%Y%m%d'' d)) = day d"
  using length_year [OF assms] length_month [OF assms] length_day [OF assms]
  unfolding strftime_Ymd by (simp_all add: read_nat_zpad)

lemma coupons_filename:
  "CouponMetricsDownloadView_get_filename now = ''coupons-'' @ strftime ''%Y%m%d'' (dt_date now) @ ''.csv''"
  by (simp add: CouponMetricsDownloadView_get_filename_def)

subsection \<open>The renderer\<close>

lemma write_rows_length:
  "write_rows f rs = Inr rows \<Longrightarrow> length rows = length rs"
  by (induction rs arbitrary: rows) (auto split: sum.splits)

lemma subscription_rows_shared:
  "Subscription_queryrow_to_columns v = Subscription_queryrow_to_columns w"
  by (rule ext) (simp add: Subscription_queryrow_to_columns_def)

subsection \<open>Rows and headings\<close>

text \<open>
  The rows of the coupon, registered-user and subscription exports are as long as the
  headings of their views; a cart item of the coupon export's query source has a coupon,
  so its row is defined. The row of the balances export has one cell more than
  \<^verbatim>\<open>monthly_balances\<close> returns entries, and its headings one more than
  \<^verbatim>\<open>month_periods\<close> returns.
\<close>

lemma coupon_row_length:
  assumes "ci \<in> set (CouponMetricsDownloadView_get_queryset coupons objects)"
  shows "map_sum id length (CouponMetricsDownloadView_queryrow_to_columns ci) =
           Inr (length CouponMetricsDownloadView_get_headings)"
proof -
  from assms obtain c where "ci_coupon ci = Some c"
    by (auto simp: CouponMetricsDownloadView_get_queryset_def coupon_in_def split: option.splits)
  then show ?thesis
    by (simp add: CouponMetricsDownloadView_queryrow_to_columns_def
        CouponMetricsDownloadView_get_headings_def CouponMetricsDownloadView_headings_def)
qed

lemma registered_row_length:
  "map_sum id length (RegisteredBaseDownloadView_queryrow_to_columns usr) =
     Inr (length RegisteredBaseDownloadView_get_headings)"
  by (simp add: RegisteredBaseDownloadView_queryrow_to_columns_def
      RegisteredBaseDownloadView_get_headings_def)

lemma subscription_row_length:
  "map_sum id length (Subscription_queryrow_to_columns v sub) =
     Inr (length (Subscription_get_headings v))"
  by (simp add: Subscription_queryrow_to_columns_def Subscription_get_headings_def)

lemma balances_row_length:
  "map_sum id length (BalancesDownloadView_queryrow_to_columns monthly_balances self account) =
     Inr (Suc (length (monthly_balances (mv_organization self) account (dt_date (mv_ends_at self)))))"
  by (simp add: BalancesDownloadView_queryrow_to_columns_def)

lemma balances_headings_length:
  "length (BalancesDownloadView_get_headings month_periods self) =
     Suc (length (month_periods (mv_ends_at self)))"
  by (simp add: BalancesDownloadView_get_headings_def)

text \<open>
  In the coupon, registered-user and subscription exports every text column is the UTF-8
  encoding of its field, and the percentage and the dates are emitted as they are.
\<close>

lemma coupon_row_encoded:
  "CouponMetricsDownloadView_queryrow_to_columns (ci\<lparr>ci_coupon := Some c\<rparr>) =
     Inr [Bytes (utf8_encode (code c)),
          Num (int (percent c)),
          Bytes (utf8_encode (first_name (ci_user ci) @ [32] @ last_name (ci_user ci))),
          Bytes (utf8_encode (user_email (ci_user ci))),
          Bytes (utf8_encode (slug (ci_plan ci)))]"
  by (simp add: CouponMetricsDownloadView_queryrow_to_columns_def)

lemma registered_row_encoded:
  "RegisteredBaseDownloadView_queryrow_to_columns usr =
     Inr [Bytes (utf8_encode (first_name usr)),
          Bytes (utf8_encode (last_name usr)),
          Bytes (utf8_encode (user_email usr)),
          DateCell (dt_date (date_joined usr))]"
  by (simp add: RegisteredBaseDownloadView_queryrow_to_columns_def)

lemma subscription_row_encoded:
  "Subscription_queryrow_to_columns v sub =
     Inr [Bytes (utf8_encode (full_name (sub_organization sub))),
          Bytes (utf8_encode (org_email (sub_organization sub))),
          Bytes (utf8_encode (title (sub_plan sub))),
          DateCell (dt_date (created_at sub)),
          DateCell (dt_date (ends_at sub))]"
  by (simp add: Subscription_queryrow_to_columns_def)

section \<open>Claims\<close>

text \<open>
  C1. The claim: the export of \<^verbatim>\<open>CouponMetricsDownloadView\<close> has one data row per cart
  item that matches the coupon and is recorded, so a coupon on two recorded and one
  unrecorded cart items gives two data rows. The code selects by coupon only: on that
  input the export has three data rows, while the queryset of \<^verbatim>\<open>CouponMetricsView\<close>,
  which filters on \<^verbatim>\<open>recorded\<close>, has two records.
\<close>

theorem coupon_download_includes_unrecorded: "map_sum id (\<lambda>r. length (data_rows r))
     (CouponMetricsDownloadView_get today [save10]
        [cart_item True, cart_item True, cart_item False]) = Inr 3
   \<and> length (CouponMetricsView_get_queryset save10
        [cart_item True, cart_item True, cart_item False]) = 2"
  by (simp add: CouponMetricsDownloadView_get_def CSVDownloadView_get_def
      CouponMetricsDownloadView_get_queryset_def coupon_in_def cart_item_def save10_def
      CouponMetricsDownloadView_queryrow_to_columns_def data_rows_def
      CouponMetricsView_get_queryset_def ListView_get_queryset_def coupon_is_def)

text \<open>
  C4, as amended. \<^verbatim>\<open>PlansMetricsView\<close> stores under \<^verbatim>\<open>tables\<close> the JSON
  serialization of one table descriptor with exactly the keys title, key, active and
  location. \<^verbatim>\<open>RevenueMetricsView\<close> stores the list of its three descriptors without
  serializing it; their keys are key, title, unit and location for the first two and key,
  title and location for the third, and none has the key active.
\<close>

theorem dashboard_tables:
  "PlansMetricsView_get_context_data dumps reverse base org plans ''tables'' =
     Some (CStr (dumps (JList (PlansMetricsView_tables reverse org))))
   \<and> map dict_keys (PlansMetricsView_tables reverse org) =
       [[''title'', ''key'', ''active'', ''location'']]
   \<and> \<not> is_serialized (RevenueMetricsView_get_context_data reverse base org ''tables'')
   \<and> map dict_keys (context_tables (RevenueMetricsView_get_context_data reverse base org ''tables'')) =
       [[''key'', ''title'', ''unit'', ''location''],
        [''key'', ''title'', ''unit'', ''location''],
        [''key'', ''title'', ''location'']]"
  by (simp add: PlansMetricsView_get_context_data_def PlansMetricsView_tables_def
      RevenueMetricsView_get_context_data_def Let_def)

text \<open>
  C4 as stated fails for \<^verbatim>\<open>RevenueMetricsView\<close>: the entry is not a string, no
  descriptor has the key active and two have the key unit.
\<close>

theorem revenue_tables_counterexample:
  "\<not> is_serialized (RevenueMetricsView_get_context_data sample_reverse Map.empty ''cowork'' ''tables'')
   \<and> map dict_keys
        (context_tables (RevenueMetricsView_get_context_data sample_reverse Map.empty ''cowork'' ''tables'')) =
       [[''key'', ''title'', ''unit'', ''location''],
        [''key'', ''title'', ''unit'', ''location''],
        [''key'', ''title'', ''location'']]
   \<and> ''active'' \<notin> set (concat (map dict_keys
        (context_tables (RevenueMetricsView_get_context_data sample_reverse Map.empty ''cowork'' ''tables''))))
   \<and> ''unit'' \<in> set (concat (map dict_keys
        (context_tables (RevenueMetricsView_get_context_data sample_reverse Map.empty ''cowork'' ''tables''))))"
  by (simp add: RevenueMetricsView_get_context_data_def)

text \<open>
  C5. With a current date that is valid and not before 1900, the file names of the
  coupon, registered-user, active-subscriber and churned-subscriber exports are the
  report key, a dash, eight digits and \<^verbatim>\<open>.csv\<close>; the digits read back as the year, the
  month and the day of the current date. The file name of the balances export is
  \<^verbatim>\<open>balances.csv\<close>.
\<close>

theorem download_filenames:
  assumes "valid_date (dt_date now)" and "1900 \<le> year (dt_date now)"
  shows "CouponMetricsDownloadView_get_filename now =
           ''coupons-'' @ strftime ''%Y%m%d'' (dt_date now) @ ''.csv''
    \<and> RegisteredBaseDownloadView_get_filename now =
           ''registered-'' @ strftime ''%Y%m%d'' (dt_date now) @ ''.csv''
    \<and> Subscription_get_filename ActiveSubscriptionDownloadView now =
           ''subscribers-active-'' @ strftime ''%Y%m%d'' (dt_date now) @ ''.csv''
    \<and> Subscription_get_filename ChurnedSubscriptionDownloadView now =
           ''subscribers-churned-'' @ strftime ''%Y%m%d'' (dt_date now) @ ''.csv''
    \<and> BalancesDownloadView_get_filename = ''balances.csv''
    \<and> length (strftime ''%Y%m%d'' (dt_date now)) = 8
    \<and> set (strftime ''%Y%m%d'' (dt_date now)) \<subseteq> set ''0123456789''
    \<and> read_nat (take 4 (strftime ''%Y%m%d'' (dt_date now))) = nat (year (dt_date now))
    \<and> read_nat (take 2 (drop 4 (strftime ''%Y%m%d'' (dt_date now)))) = month (dt_date now)
    \<and> read_nat (drop 6 (strftime ''%Y%m%d'' (dt_date now))) = day (dt_date now)"
  using strftime_Ymd_length [OF assms(1)] strftime_Ymd_digits [of "dt_date now"]
    strftime_Ymd_fields [OF assms(1)] coupons_filename [of now]
  by (simp only: RegisteredBaseDownloadView_get_filename_def Subscription_get_filename_def
      BalancesDownloadView_get_filename_def BalancesDownloadView_queryname_def
      subscriber_type.simps str_of.simps append.simps append_assoc simp_thms)

theorem download_filenames_witness:
  "valid_date (dt_date today) \<and> 1900 \<le> year (dt_date today)
   \<and> CouponMetricsDownloadView_get_filename today = ''coupons-20150307.csv''
   \<and> RegisteredBaseDownloadView_get_filename today = ''registered-20150307.csv''
   \<and> Subscription_get_filename ActiveSubscriptionDownloadView today = ''subscribers-active-20150307.csv''
   \<and> Subscription_get_filename ChurnedSubscriptionDownloadView today = ''subscribers-churned-20150307.csv''
   \<and> BalancesDownloadView_get_filename = ''balances.csv''"
proof -
  have v: "valid_date (dt_date today)" and y: "1900 \<le> year (dt_date today)"
    by (simp_all add: today_def valid_date_def days_in_month_def)
  have s: "strftime ''%Y%m%d'' (dt_date today) = ''20150307''"
    by code_simp
  from download_filenames [OF v y, unfolded s] v y show ?thesis by simp
qed

text \<open>
  C6. The claim: in every download view each text column is encoded to UTF-8 before it is
  emitted. \<^verbatim>\<open>BalancesDownloadView.queryrow_to_columns\<close> emits the account label as it
  is: for the label with the code points 67, 97, 102, 233 the first cell is that text,
  whatever \<^verbatim>\<open>monthly_balances\<close> returns, while the subscription export emits the bytes
  67, 97, 102, 195, 169 for an organization of the same name.
\<close>

theorem balances_account_label_unencoded:
  "map_sum id hd (BalancesDownloadView_queryrow_to_columns monthly_balances self (full_name cafe)) =
     Inr (Text [67, 97, 102, 233])
   \<and> map_sum id hd (Subscription_queryrow_to_columns v cafe_subscription) =
     Inr (Bytes [67, 97, 102, 195, 169])"
  by (simp add: BalancesDownloadView_queryrow_to_columns_def Subscription_queryrow_to_columns_def
      cafe_subscription_def cafe_def utf8_encode_def utf8_encode_char_def)

text \<open>
  C8. When the registered-users query source yields no record, the export succeeds and
  its rows are the heading row alone.
\<close>

theorem registered_export_empty: "RegisteredDownloadView_get now [] =
   Inr \<lparr>content_type = ''text/csv'', filename = RegisteredBaseDownloadView_get_filename now,
        body = [[Str ''First name'', Str ''Last name'', Str ''Email'', Str ''Registration Date'']]\<rparr>"
  by (simp add: RegisteredDownloadView_get_def CSVDownloadView_get_def
      RegisteredBaseDownloadView_get_headings_def)

text \<open>
  C9. The context value \<^verbatim>\<open>coupon_performance_count\<close> of \<^verbatim>\<open>CouponMetricsView\<close> is
  the number of records of the unpaginated queryset of the view.
\<close>

theorem coupon_performance_count_matches_queryset: "CouponMetricsView_get_context_data base c objects ''coupon_performance_count''
    = Some (CInt (int (length (CouponMetricsView_get_queryset c objects))))"
  by (simp add: CouponMetricsView_get_context_data_def CouponMetricsView_get_queryset_def
      ListView_get_queryset_def)

text \<open>
  C10. The active and churned subscription exports map every record to the same row
  and have the same headings, so they write the same rows for the same records; their
  file names differ in the subscriber type only.
\<close>

theorem subscription_exports_share_mapping:
  "Subscription_queryrow_to_columns ActiveSubscriptionDownloadView r =
     Subscription_queryrow_to_columns ChurnedSubscriptionDownloadView r
   \<and> Subscription_get_headings ActiveSubscriptionDownloadView =
       [Str ''Name'', Str ''Email'', Str ''Plan'', Str ''Since'', Str ''Until'']
   \<and> Subscription_get_headings ChurnedSubscriptionDownloadView =
       [Str ''Name'', Str ''Email'', Str ''Plan'', Str ''Since'', Str ''Until'']
   \<and> map_sum id body (Subscription_get ActiveSubscriptionDownloadView now records) =
       map_sum id body (Subscription_get ChurnedSubscriptionDownloadView now records)
   \<and> Subscription_get_filename ActiveSubscriptionDownloadView now =
       ''subscribers-active-'' @ strftime ''%Y%m%d'' (dt_date now) @ ''.csv''
   \<and> Subscription_get_filename ChurnedSubscriptionDownloadView now =
       ''subscribers-churned-'' @ strftime ''%Y%m%d'' (dt_date now) @ ''.csv''"
proof -
  have "map_sum id body (Subscription_get ActiveSubscriptionDownloadView now records) =
      map_sum id body (Subscription_get ChurnedSubscriptionDownloadView now records)"
    unfolding Subscription_get_def CSVDownloadView_get_def
      subscription_rows_shared [of ActiveSubscriptionDownloadView ChurnedSubscriptionDownloadView]
    by (simp add: Subscription_get_headings_def split: sum.splits)
  then show ?thesis
    by (simp add: Subscription_queryrow_to_columns_def Subscription_get_headings_def
        Subscription_get_filename_def del: strftime.simps)
qed

end
